theory Spec2Isabelle
  imports Main "HOL-Library.Word"
begin

section \<open>Bytes, Python errors and sequence primitives\<close>

text \<open>
  The program is \<^verbatim>\<open>minidhcp.py\<close>, a DHCP server for one host. Elements of Python's
  \<^verbatim>\<open>bytes\<close> and \<^verbatim>\<open>bytearray\<close> are integers in range(256): they are 8-bit words here.
  Python's own integers (option numbers passed to the builders, indices, lengths) are
  unbounded: \<open>int\<close> where they may be any number, \<open>nat\<close> for indices and lengths.
\<close>

type_synonym byte = "8 word"

datatype py_error = IndexError | ValueError | KeyError | NameError

text \<open>Sequencing of computations that may raise: the first exception ends the run.\<close>

definition seq :: "py_error + 'a \<Rightarrow> ('a \<Rightarrow> py_error + 'b) \<Rightarrow> py_error + 'b" where
  "seq m f = (case m of Inl e \<Rightarrow> Inl e | Inr x \<Rightarrow> f x)"

text \<open>\<^verbatim>\<open>bytearray(n)\<close>: n zero bytes.\<close>

definition bytearray :: "nat \<Rightarrow> byte list" where
  "bytearray n = replicate n 0"

text \<open>\<^verbatim>\<open>b[i]\<close> for an index \<open>i \<ge> 0\<close>: IndexError outside the buffer.\<close>

definition getitem :: "byte list \<Rightarrow> nat \<Rightarrow> py_error + byte" where
  "getitem b i = (if i < length b then Inr (b ! i) else Inl IndexError)"

text \<open>
  \<^verbatim>\<open>b[i] = v\<close> on a bytearray, \<open>v\<close> a Python integer: IndexError outside the buffer,
  ValueError when \<open>v\<close> is not in range(256).
\<close>

definition setitem :: "byte list \<Rightarrow> nat \<Rightarrow> int \<Rightarrow> py_error + byte list" where
  "setitem b i v =
     (if \<not> i < length b then Inl IndexError
      else if v < 0 \<or> 255 < v then Inl ValueError
      else Inr (b[i := word_of_int v]))"

text \<open>\<^verbatim>\<open>b[lo:hi]\<close> for \<open>0 \<le> lo\<close>, \<open>0 \<le> hi\<close>: clipped to the buffer, never an error.\<close>

definition getslice :: "'a list \<Rightarrow> nat \<Rightarrow> nat \<Rightarrow> 'a list" where
  "getslice b lo hi = take (hi - lo) (drop lo b)"

text \<open>
  \<^verbatim>\<open>b[lo:hi] = v\<close> on a bytearray: the slice is replaced by \<open>v\<close>, whatever its length
  (the bytearray grows or shrinks when the lengths differ).
\<close>

definition setslice :: "byte list \<Rightarrow> nat \<Rightarrow> nat \<Rightarrow> byte list \<Rightarrow> byte list" where
  "setslice b lo hi v = take lo b @ v @ drop (max lo hi) b"

text \<open>
  \<^verbatim>\<open>ba == 0\<close> for a bytes-like \<open>ba\<close>: a bytearray never equals an integer, so the
  comparison is False for every \<open>ba\<close>.
\<close>

definition bytearray_eq_int :: "byte list \<Rightarrow> int \<Rightarrow> bool" where
  "bytearray_eq_int ba n = False"

section \<open>Option builders\<close>

definition buildbyteoption :: "int \<Rightarrow> byte list \<Rightarrow> py_error + byte list" where
  "buildbyteoption optnum ba =
     (let lenba = length ba in
      if bytearray_eq_int ba 0 then
        seq (setitem (bytearray 1) 0 optnum) (\<lambda>opt. Inr opt)
      else
        seq (setitem (bytearray (2 + lenba)) 0 optnum) (\<lambda>opt.
        seq (setitem opt 1 (int lenba)) (\<lambda>opt.
        Inr (setslice opt 2 (2 + lenba) ba))))"

definition build1byteoption :: "int \<Rightarrow> int \<Rightarrow> py_error + byte list" where
  "build1byteoption optnum databyte =
     seq (setitem (bytearray 3) 0 optnum) (\<lambda>optbytes.
     seq (setitem optbytes 1 1) (\<lambda>optbytes.
     seq (setitem optbytes 2 databyte) (\<lambda>optbytes.
     Inr optbytes)))"

definition build4byteoption :: "int \<Rightarrow> int \<Rightarrow> int \<Rightarrow> int \<Rightarrow> int \<Rightarrow> py_error + byte list" where
  "build4byteoption optnum d1 d2 d3 d4 =
     seq (setitem (bytearray 6) 0 optnum) (\<lambda>optbytes.
     seq (setitem optbytes 1 4) (\<lambda>optbytes.
     seq (setitem optbytes 2 d1) (\<lambda>optbytes.
     seq (setitem optbytes 3 d2) (\<lambda>optbytes.
     seq (setitem optbytes 4 d3) (\<lambda>optbytes.
     seq (setitem optbytes 5 d4) (\<lambda>optbytes.
     Inr optbytes))))))"

definition buildendoption :: "py_error + byte list" where
  "buildendoption = seq (setitem (bytearray 1) 0 255) (\<lambda>optbytes. Inr optbytes)"

section \<open>The option loop of the main loop\<close>

text \<open>
  Lines 489 to 521: the \<^verbatim>\<open>while i < numoptbytes\<close> loop over \<^verbatim>\<open>optiondata\<close>. Its state is
  the index \<open>i\<close>, the dictionary \<open>opts\<close> and what it prints: \<open>shown\<close> holds one pair
  (option, optdata) for each \<^verbatim>\<open>print("Option:", ...)\<close> line, in the order printed.
  \<^verbatim>\<open>continue\<close> is the recursive call, \<^verbatim>\<open>break\<close> returns the state.
\<close>

type_synonym optdict = "byte \<rightharpoonup> byte list"

function options_loop ::
  "byte list \<Rightarrow> nat \<Rightarrow> optdict \<Rightarrow> (byte \<times> byte list) list
     \<Rightarrow> py_error + (optdict \<times> (byte \<times> byte list) list)" where
  "options_loop optiondata i opts shown =
     (if i < length optiondata then
        (case getitem optiondata i of
           Inl e \<Rightarrow> Inl e
         | Inr option \<Rightarrow>
             if option = 0 then options_loop optiondata (i + 1) opts shown
             else if option = 255 then Inr (opts, shown)
             else if i + 1 \<ge> length optiondata then Inr (opts, shown)
             else
               (case getitem optiondata (i + 1) of
                  Inl e \<Rightarrow> Inl e
                | Inr optlen \<Rightarrow>
                    if i + 2 + unat optlen \<ge> length optiondata then Inr (opts, shown)
                    else
                      options_loop optiondata (i + 2 + unat optlen)
                        (opts(option \<mapsto> getslice optiondata (i + 2) (i + 2 + unat optlen)))
                        (shown @ [(option, getslice optiondata (i + 2) (i + 2 + unat optlen))])))
      else Inr (opts, shown))"
  by pat_completeness auto
termination
  by (relation "measure (\<lambda>(optiondata, i, opts, shown). length optiondata - i)") auto

text \<open>The loop as the main loop starts it: \<^verbatim>\<open>opts = {}\<close>, \<^verbatim>\<open>i = 0\<close>, nothing shown yet.\<close>

definition process_options ::
  "byte list \<Rightarrow> py_error + (optdict \<times> (byte \<times> byte list) list)" where
  "process_options optiondata = options_loop optiondata 0 Map.empty []"

section \<open>Readable forms of byte strings\<close>

text \<open>\<^verbatim>\<open>"{:02X}".format(b)\<close> for a byte \<open>b\<close>: two upper-case hexadecimal digits.\<close>

definition hexdigit :: "nat \<Rightarrow> char" where
  "hexdigit n = ''0123456789ABCDEF'' ! n"

definition format_02X :: "byte \<Rightarrow> string" where
  "format_02X b = [hexdigit (unat b div 16), hexdigit (unat b mod 16)]"

function readablebytes_loop :: "byte list \<Rightarrow> nat \<Rightarrow> string \<Rightarrow> string" where
  "readablebytes_loop bytes i readable =
     (if i < length bytes
      then readablebytes_loop bytes (i + 1) (readable @ format_02X (bytes ! i))
      else readable)"
  by pat_completeness auto
termination
  by (relation "measure (\<lambda>(bytes, i, readable). length bytes - i)") auto

definition readablebytes :: "byte list \<Rightarrow> string" where
  "readablebytes bytes =
     (let numbytes = length bytes in
      if numbytes = 0 then ''0xNull'' else readablebytes_loop bytes 0 ''0x'')"

text \<open>
  The loop of \<^verbatim>\<open>readablemacaddress\<close> runs \<open>i\<close> from 0 to 5 on a buffer of exactly 6 bytes,
  so every \<^verbatim>\<open>bytes[i]\<close> it reads is inside the buffer.
\<close>

function readablemacaddress_loop :: "byte list \<Rightarrow> nat \<Rightarrow> string \<Rightarrow> string" where
  "readablemacaddress_loop bytes i readable =
     (if i < 6
      then readablemacaddress_loop bytes (i + 1)
             ((if i > 0 then readable @ '':'' else readable) @ format_02X (bytes ! i))
      else readable)"
  by pat_completeness auto
termination
  by (relation "measure (\<lambda>(bytes, i, readable). 6 - i)") auto

definition readablemacaddress :: "byte list \<Rightarrow> string" where
  "readablemacaddress bytes =
     (let numbytes = length bytes in
      if numbytes \<noteq> 6 then ''<invalid MAC>'' else readablemacaddress_loop bytes 0 [])"

section \<open>The magic cookie\<close>

definition buildipaddr :: "int \<Rightarrow> int \<Rightarrow> int \<Rightarrow> int \<Rightarrow> py_error + byte list" where
  "buildipaddr ip1 ip2 ip3 ip4 =
     seq (setitem (bytearray 4) 0 ip1) (\<lambda>ipaddr.
     seq (setitem ipaddr 1 ip2) (\<lambda>ipaddr.
     seq (setitem ipaddr 2 ip3) (\<lambda>ipaddr.
     seq (setitem ipaddr 3 ip4) (\<lambda>ipaddr.
     Inr ipaddr))))"

definition cookieconstant :: "py_error + byte list" where
  "cookieconstant = buildipaddr 99 130 83 99"

section \<open>The main loop\<close>

text \<open>
  The globals the main loop reads, set once from the command line before the loop starts:
  \<open>macaddr\<close> is the upper-cased text of the \<^verbatim>\<open>-m\<close> argument, the four byte arrays are
  what \<^verbatim>\<open>ip2bytearray\<close> returned for the \<^verbatim>\<open>-b\<close>, \<^verbatim>\<open>-i\<close>, \<^verbatim>\<open>-s\<close> and \<^verbatim>\<open>-g\<close> arguments.
\<close>

record config =
  macaddr :: string
  baipbind :: "byte list"
  baipaddr :: "byte list"
  basubnet :: "byte list"
  bagateway :: "byte list"

definition OPT_DHCP_MESSAGE_TYPE :: byte where
  "OPT_DHCP_MESSAGE_TYPE = 53"

text \<open>
  One iteration of \<^verbatim>\<open>while True\<close> ends in one of three ways: a \<^verbatim>\<open>continue\<close> after a
  diagnostic line (\<open>Ignored\<close>, with the reason printed), a datagram handed to
  \<^verbatim>\<open>sendto\<close> (\<open>Sent\<close>, with \<^verbatim>\<open>responsename\<close> and the bytes of \<^verbatim>\<open>offer\<close>), or an uncaught
  exception, which ends the process (\<open>Inl\<close>). The sockets are outside the model: the
  packet is the value \<^verbatim>\<open>recvfrom\<close> returned, and what \<^verbatim>\<open>sendto\<close> does with the bytes it is
  given is not described. Of the printed lines only the reasons and the shown options
  are kept.
\<close>

datatype reason =
    NoBytes
  | LessThan241
  | OpNot1Or2
  | HardwareTypeNot1
  | HardwareAddressLengthNot6
  | MacMismatch
  | NoMagicCookie
  | NoMessageType
  | MessageTypeNotSingleByte
  | MessageTypeNotSupported

datatype outcome = Ignored reason | Sent string "byte list"

text \<open>\<^verbatim>\<open>opts[k]\<close>: KeyError when the key is absent.\<close>

definition dict_getitem :: "optdict \<Rightarrow> byte \<Rightarrow> py_error + byte list" where
  "dict_getitem d k = (case d k of None \<Rightarrow> Inl KeyError | Some v \<Rightarrow> Inr v)"

text \<open>
  Lines 541 to 592, from \<^verbatim>\<open>print("building response")\<close> to the send. \<^verbatim>\<open>responsename\<close> is
  bound only inside the two \<^verbatim>\<open>if\<close> statements: reading it unbound is a NameError.
\<close>

definition build_response ::
  "config \<Rightarrow> byte list \<Rightarrow> byte list \<Rightarrow> byte list \<Rightarrow> byte list \<Rightarrow> py_error + outcome" where
  "build_response cfg transactionid flags thismacaddr messagetype =
     seq (setitem (bytearray 240) 0 2) (\<lambda>offer.
     seq (setitem offer 1 1) (\<lambda>offer.
     seq (setitem offer 2 6) (\<lambda>offer.
     seq (setitem offer 3 0) (\<lambda>offer.
     let offer = setslice offer 4 8 transactionid;
         offer = setslice offer 10 12 flags;
         offer = setslice offer 16 20 (baipaddr cfg);
         offer = setslice offer 20 24 (baipbind cfg);
         offer = setslice offer 28 34 thismacaddr
     in
     seq cookieconstant (\<lambda>cookie.
     let offer = setslice offer 236 240 cookie in
     seq (if messagetype = [1]
          then seq (build1byteoption 53 2) (\<lambda>opt. Inr (Some ''DHCPOFFER'', offer @ opt))
          else Inr (None, offer)) (\<lambda>(responsename, offer).
     seq (if messagetype = [3]
          then seq (build1byteoption 53 5) (\<lambda>opt. Inr (Some ''DHCPACK'', offer @ opt))
          else Inr (responsename, offer)) (\<lambda>(responsename, offer).
     seq (buildbyteoption 1 (basubnet cfg)) (\<lambda>opt. let offer = offer @ opt in
     seq (buildbyteoption 3 (bagateway cfg)) (\<lambda>opt. let offer = offer @ opt in
     seq (build4byteoption 51 0 1 81 128) (\<lambda>opt. let offer = offer @ opt in
     seq (buildbyteoption 54 (baipbind cfg)) (\<lambda>opt. let offer = offer @ opt in
     seq buildendoption (\<lambda>opt. let offer = offer @ opt in
     (case responsename of
        None \<Rightarrow> Inl NameError
      | Some name \<Rightarrow> Inr (Sent name offer))))))))))))))"

text \<open>Lines 415 to 539 of the loop body, for the datagram \<open>packet\<close> that \<^verbatim>\<open>recvfrom\<close> returned.\<close>

definition main_loop_body :: "config \<Rightarrow> byte list \<Rightarrow> py_error + outcome" where
  "main_loop_body cfg packet =
     (let lenpacket = length packet in
      if lenpacket = 0 then Inr (Ignored NoBytes)
      else if lenpacket < 241 then Inr (Ignored LessThan241)
      else
        seq (getitem packet 0) (\<lambda>op.
        if op \<noteq> 1 \<and> op \<noteq> 2 then Inr (Ignored OpNot1Or2)
        else
          seq (getitem packet 1) (\<lambda>hardwaretype.
          if hardwaretype \<noteq> 1 then Inr (Ignored HardwareTypeNot1)
          else
            seq (getitem packet 2) (\<lambda>lenhardwareaddress.
            if lenhardwareaddress \<noteq> 6 then Inr (Ignored HardwareAddressLengthNot6)
            else
              seq (getitem packet 3) (\<lambda>hops.
              let transactionid = getslice packet 4 8;
                  flags = getslice packet 10 12;
                  thismacaddr = getslice packet 28 34
              in
              if readablemacaddress thismacaddr \<noteq> macaddr cfg then Inr (Ignored MacMismatch)
              else
                let cookie = getslice packet 236 240 in
                if readablebytes cookie \<noteq> ''0x63825363'' then Inr (Ignored NoMagicCookie)
                else
                  let optiondata = drop 240 packet in
                  seq (process_options optiondata) (\<lambda>(opts, shown).
                  if opts OPT_DHCP_MESSAGE_TYPE = None then Inr (Ignored NoMessageType)
                  else
                    seq (dict_getitem opts OPT_DHCP_MESSAGE_TYPE) (\<lambda>messagetype.
                    if length messagetype \<noteq> 1 then Inr (Ignored MessageTypeNotSingleByte)
                    else if messagetype \<noteq> [1] \<and> messagetype \<noteq> [3]
                    then Inr (Ignored MessageTypeNotSupported)
                    else build_response cfg transactionid flags thismacaddr messagetype)))))))"


section \<open>Example inputs\<close>

text \<open>
  Concrete inputs on which the theorems below are instantiated: a configuration (the
  addresses are the ones in the commented-out defaults of the source) and a request
  packet with a given hardware address, cookie and option bytes.
\<close>

definition example_config :: config where
  "example_config =
     \<lparr>macaddr = ''AA:BB:CC:DD:EE:FF'',
      baipbind = [192, 168, 2, 53],
      baipaddr = [192, 168, 2, 100],
      basubnet = [255, 255, 255, 0],
      bagateway = [192, 168, 2, 254]\<rparr>"

definition example_packet :: "byte list \<Rightarrow> byte list \<Rightarrow> byte list \<Rightarrow> byte list" where
  "example_packet thismacaddr cookie optiondata =
     [1, 1, 6, 0] @ [18, 52, 86, 120] @ replicate 20 0 @ thismacaddr @ replicate 202 0
       @ cookie @ optiondata"

section \<open>Facts about the option loop\<close>

declare options_loop.simps [simp del]

lemma options_loop_done:
  "\<not> i < length bs \<Longrightarrow> options_loop bs i opts shown = Inr (opts, shown)"
  by (subst options_loop.simps) simp

lemma options_loop_pad:
  "i < length bs \<Longrightarrow> bs ! i = 0 \<Longrightarrow>
   options_loop bs i opts shown = options_loop bs (i + 1) opts shown"
  by (subst options_loop.simps) (simp add: getitem_def)

lemma options_loop_end:
  "i < length bs \<Longrightarrow> bs ! i = 255 \<Longrightarrow> options_loop bs i opts shown = Inr (opts, shown)"
  by (subst options_loop.simps) (simp add: getitem_def)

lemma options_loop_no_length:
  "i < length bs \<Longrightarrow> bs ! i \<noteq> 0 \<Longrightarrow> bs ! i \<noteq> 255 \<Longrightarrow> length bs \<le> i + 1 \<Longrightarrow>
   options_loop bs i opts shown = Inr (opts, shown)"
  by (subst options_loop.simps) (simp add: getitem_def)

lemma options_loop_short:
  "i + 1 < length bs \<Longrightarrow> bs ! i \<noteq> 0 \<Longrightarrow> bs ! i \<noteq> 255 \<Longrightarrow>
   length bs \<le> i + 2 + unat (bs ! (i + 1)) \<Longrightarrow>
   options_loop bs i opts shown = Inr (opts, shown)"
  by (subst options_loop.simps) (simp add: getitem_def)

lemma options_loop_entry:
  "bs ! i \<noteq> 0 \<Longrightarrow> bs ! i \<noteq> 255 \<Longrightarrow> i + 2 + unat (bs ! (i + 1)) < length bs \<Longrightarrow>
   options_loop bs i opts shown =
     options_loop bs (i + 2 + unat (bs ! (i + 1)))
       (opts(bs ! i \<mapsto> getslice bs (i + 2) (i + 2 + unat (bs ! (i + 1)))))
       (shown @ [(bs ! i, getslice bs (i + 2) (i + 2 + unat (bs ! (i + 1))))])"
  by (subst options_loop.simps) (simp add: getitem_def)

lemma options_loop_cases:
  fixes bs :: "byte list" and i :: nat
  obtains (fin) "\<not> i < length bs"
  | (pad) "i < length bs" "bs ! i = 0"
  | (stop) "i < length bs" "bs ! i = 255"
  | (nolen) "i < length bs" "bs ! i \<noteq> 0" "bs ! i \<noteq> 255" "length bs \<le> i + 1"
  | (short) "i + 1 < length bs" "bs ! i \<noteq> 0" "bs ! i \<noteq> 255"
      "length bs \<le> i + 2 + unat (bs ! (i + 1))"
  | (entry) "bs ! i \<noteq> 0" "bs ! i \<noteq> 255" "i + 2 + unat (bs ! (i + 1)) < length bs"
  by atomize_elim (auto simp: not_less)

lemma options_loop_total: "\<exists>r. options_loop bs i opts shown = Inr r"
proof (induction "length bs - i" arbitrary: i opts shown rule: less_induct)
  case less
  show ?case
  proof (cases rule: options_loop_cases [of i bs])
    case pad
    then have "length bs - (i + 1) < length bs - i" by arith
    from less [OF this] pad show ?thesis by (simp add: options_loop_pad)
  next
    case entry
    then have "length bs - (i + 2 + unat (bs ! (i + 1))) < length bs - i" by arith
    from less [OF this] entry show ?thesis by (simp add: options_loop_entry)
  qed (simp_all add: options_loop_done options_loop_end options_loop_no_length options_loop_short)
qed

lemma options_loop_map_of:
  "options_loop bs i (map_of (rev shown)) shown = Inr (opts', shown')
   \<Longrightarrow> opts' = map_of (rev shown')"
proof (induction "length bs - i" arbitrary: i shown rule: less_induct)
  case less
  show ?case
  proof (cases rule: options_loop_cases [of i bs])
    case pad
    then have "length bs - (i + 1) < length bs - i" by arith
    from less(1) [OF this] less(2) pad show ?thesis by (simp add: options_loop_pad)
  next
    case entry
    let ?j = "i + 2 + unat (bs ! (i + 1))"
    let ?e = "(bs ! i, getslice bs (i + 2) ?j)"
    from entry have m: "length bs - ?j < length bs - i" by arith
    have "options_loop bs ?j (map_of (rev (shown @ [?e]))) (shown @ [?e]) = Inr (opts', shown')"
      using less(2) entry by (simp add: options_loop_entry)
    from less(1) [OF m this] show ?thesis .
  qed (use less(2) in \<open>auto simp add: options_loop_done options_loop_end options_loop_no_length options_loop_short\<close>)
qed

section \<open>Facts about the builders\<close>

lemma build1byteoption_eq:
  "0 \<le> optnum \<Longrightarrow> optnum \<le> 255 \<Longrightarrow> 0 \<le> d \<Longrightarrow> d \<le> 255 \<Longrightarrow>
   build1byteoption optnum d = Inr [word_of_int optnum, 1, word_of_int d]"
  by (simp add: build1byteoption_def seq_def setitem_def bytearray_def numeral_eq_Suc)

lemma build4byteoption_lease: "build4byteoption 51 0 1 81 128 = Inr [51, 4, 0, 1, 81, 128]"
  by (simp add: build4byteoption_def seq_def setitem_def bytearray_def numeral_eq_Suc)

lemma buildendoption_eq: "buildendoption = Inr [255]"
  by (simp add: buildendoption_def seq_def setitem_def bytearray_def)

lemma cookieconstant_eq: "cookieconstant = Inr [99, 130, 83, 99]"
  by (simp add: cookieconstant_def buildipaddr_def seq_def setitem_def bytearray_def numeral_eq_Suc)

lemma buildbyteoption_eq:
  assumes "0 \<le> optnum" "optnum \<le> 255" "length ba \<le> 255"
  shows "buildbyteoption optnum ba = Inr (word_of_int optnum # of_nat (length ba) # ba)"
  using assms
  by (simp add: buildbyteoption_def bytearray_eq_int_def seq_def setitem_def bytearray_def
      setslice_def Let_def)

lemma seq_Inr: "seq (Inr x) f = f x"
  by (simp add: seq_def)

lemma seq_Inl: "seq (Inl e) f = Inl e"
  by (simp add: seq_def)

lemma offer_fixed:
  "seq (setitem (bytearray 240) 0 2) (\<lambda>offer.
   seq (setitem offer 1 1) (\<lambda>offer.
   seq (setitem offer 2 6) (\<lambda>offer.
   seq (setitem offer 3 0) f))) = f ([2, 1, 6, 0] @ replicate 236 0)"
proof -
  have r: "replicate 240 (0::byte) = [0, 0, 0, 0] @ replicate 236 0"
    by (simp add: numeral_eq_Suc)
  show ?thesis
    by (simp add: bytearray_def r setitem_def seq_def numeral_eq_Suc)
qed

lemma header_eq:
  assumes "length transactionid = 4" "length flags = 2" "length thismacaddr = 6"
    "length ipaddr = 4" "length ipbind = 4"
  shows "setslice (setslice (setslice (setslice (setslice (setslice
           ([2, 1, 6, 0] @ replicate 236 0)
           4 8 transactionid) 10 12 flags) 16 20 ipaddr) 20 24 ipbind) 28 34 thismacaddr)
           236 240 [99, 130, 83, 99]
         = [2, 1, 6, 0] @ transactionid @ [0, 0] @ flags @ replicate 4 0 @ ipaddr @ ipbind
           @ replicate 4 0 @ thismacaddr @ replicate 202 0 @ [99, 130, 83, 99]"
  using assms by (simp add: setslice_def numeral_2_eq_2)

section \<open>Facts about the readable forms\<close>

lemma hexdigit_inj: "m < 16 \<Longrightarrow> n < 16 \<Longrightarrow> hexdigit m = hexdigit n \<Longrightarrow> m = n"
proof -
  assume m: "m < 16" and n: "n < 16" and e: "hexdigit m = hexdigit n"
  have d: "distinct ''0123456789ABCDEF''" by simp
  have "(''0123456789ABCDEF'' ! m = ''0123456789ABCDEF'' ! n) = (m = n)"
    by (rule nth_eq_iff_index_eq [OF d]) (use m n in simp_all)
  with e show "m = n" by (simp add: hexdigit_def)
qed

lemma format_02X_inj: "format_02X a = format_02X b \<Longrightarrow> a = b"
proof -
  assume e: "format_02X a = format_02X b"
  have la: "unat a div 16 < 16" and lb: "unat b div 16 < 16"
    using unsigned_less [of a, where 'a = nat] unsigned_less [of b, where 'a = nat] by simp_all
  have "unat a div 16 = unat b div 16"
    using e la lb by (auto simp add: format_02X_def dest: hexdigit_inj)
  moreover have "unat a mod 16 = unat b mod 16"
    using e by (auto simp add: format_02X_def dest!: hexdigit_inj [rotated 2])
  ultimately have "unat a = unat b"
    by (metis div_mult_mod_eq)
  then show "a = b" by (simp add: word_unat_eq_iff)
qed

lemma format_02X_append_eq:
  "(format_02X a @ r = format_02X b @ r') = (a = b \<and> r = r')"
proof -
  have "length (format_02X a) = length (format_02X b)" by (simp add: format_02X_def)
  then show ?thesis by (auto dest: format_02X_inj)
qed

lemma readablebytes_loop_eq:
  "readablebytes_loop bytes i readable = readable @ concat (map format_02X (drop i bytes))"
proof (induction bytes i readable rule: readablebytes_loop.induct)
  case (1 bytes i readable)
  show ?case
  proof (cases "i < length bytes")
    case True
    then have "drop i bytes = bytes ! i # drop (i + 1) bytes"
      by (simp add: Cons_nth_drop_Suc)
    with 1 True show ?thesis by simp
  next
    case False
    then show ?thesis by simp
  qed
qed

lemma readablebytes_cookie:
  assumes "length c = 4"
  shows "(readablebytes c = ''0x63825363'') = (c = [99, 130, 83, 99])"
proof -
  from assms obtain w x y z where c: "c = [w, x, y, z]"
    by (auto simp add: numeral_eq_Suc length_Suc_conv)
  have f: "''63825363'' = format_02X 99 @ format_02X 130 @ format_02X 83 @ format_02X 99 @ []"
    by (simp add: format_02X_def hexdigit_def)
  have "readablebytes c
        = ''0x'' @ format_02X w @ format_02X x @ format_02X y @ format_02X z @ []"
    by (simp add: c readablebytes_def readablebytes_loop_eq del: readablebytes_loop.simps)
  moreover have "''0x63825363'' = ''0x'' @ ''63825363''" by simp
  ultimately have "(readablebytes c = ''0x63825363'')
    = (format_02X w @ format_02X x @ format_02X y @ format_02X z @ []
       = format_02X 99 @ format_02X 130 @ format_02X 83 @ format_02X 99 @ [])"
    unfolding f by (simp only: same_append_eq)
  then show ?thesis
    by (simp only: format_02X_append_eq c) simp
qed

section \<open>Facts about the loop body\<close>

lemma length_getslice: "hi \<le> length b \<Longrightarrow> length (getslice b lo hi) = hi - lo"
  by (simp add: getslice_def)

lemma main_loop_body_NoBytes:
  "length packet = 0 \<Longrightarrow> main_loop_body cfg packet = Inr (Ignored NoBytes)"
  by (simp add: main_loop_body_def)

lemma main_loop_body_LessThan241:
  "length packet \<noteq> 0 \<Longrightarrow> length packet < 241 \<Longrightarrow>
   main_loop_body cfg packet = Inr (Ignored LessThan241)"
  by (simp add: main_loop_body_def)

lemma main_loop_body_OpNot1Or2:
  "241 \<le> length packet \<Longrightarrow> packet ! 0 \<noteq> 1 \<Longrightarrow> packet ! 0 \<noteq> 2 \<Longrightarrow>
   main_loop_body cfg packet = Inr (Ignored OpNot1Or2)"
  by (auto simp add: main_loop_body_def seq_def getitem_def)

lemma main_loop_body_HardwareTypeNot1:
  "241 \<le> length packet \<Longrightarrow> packet ! 0 = 1 \<or> packet ! 0 = 2 \<Longrightarrow> packet ! 1 \<noteq> 1 \<Longrightarrow>
   main_loop_body cfg packet = Inr (Ignored HardwareTypeNot1)"
  by (auto simp add: main_loop_body_def seq_def getitem_def)

lemma main_loop_body_HardwareAddressLengthNot6:
  "241 \<le> length packet \<Longrightarrow> packet ! 0 = 1 \<or> packet ! 0 = 2 \<Longrightarrow> packet ! 1 = 1 \<Longrightarrow>
   packet ! 2 \<noteq> 6 \<Longrightarrow>
   main_loop_body cfg packet = Inr (Ignored HardwareAddressLengthNot6)"
  by (auto simp add: main_loop_body_def seq_def getitem_def)

lemma main_loop_body_MacMismatch:
  "241 \<le> length packet \<Longrightarrow> packet ! 0 = 1 \<or> packet ! 0 = 2 \<Longrightarrow> packet ! 1 = 1 \<Longrightarrow>
   packet ! 2 = 6 \<Longrightarrow> readablemacaddress (getslice packet 28 34) \<noteq> macaddr cfg \<Longrightarrow>
   main_loop_body cfg packet = Inr (Ignored MacMismatch)"
  by (auto simp add: main_loop_body_def seq_def getitem_def)

lemma main_loop_body_NoMagicCookie:
  "241 \<le> length packet \<Longrightarrow> packet ! 0 = 1 \<or> packet ! 0 = 2 \<Longrightarrow> packet ! 1 = 1 \<Longrightarrow>
   packet ! 2 = 6 \<Longrightarrow> readablemacaddress (getslice packet 28 34) = macaddr cfg \<Longrightarrow>
   getslice packet 236 240 \<noteq> [99, 130, 83, 99] \<Longrightarrow>
   main_loop_body cfg packet = Inr (Ignored NoMagicCookie)"
  by (auto simp add: main_loop_body_def seq_def getitem_def readablebytes_cookie length_getslice)

lemma main_loop_body_options:
  assumes "241 \<le> length packet" "packet ! 0 = 1 \<or> packet ! 0 = 2" "packet ! 1 = 1"
    "packet ! 2 = 6" "readablemacaddress (getslice packet 28 34) = macaddr cfg"
    "getslice packet 236 240 = [99, 130, 83, 99]"
    "process_options (drop 240 packet) = Inr (opts, shown)"
  shows "main_loop_body cfg packet =
    (case opts OPT_DHCP_MESSAGE_TYPE of
       None \<Rightarrow> Inr (Ignored NoMessageType)
     | Some messagetype \<Rightarrow>
         if length messagetype \<noteq> 1 then Inr (Ignored MessageTypeNotSingleByte)
         else if messagetype \<noteq> [1] \<and> messagetype \<noteq> [3]
         then Inr (Ignored MessageTypeNotSupported)
         else build_response cfg (getslice packet 4 8) (getslice packet 10 12)
                (getslice packet 28 34) messagetype)"
proof -
  have "readablebytes (getslice packet 236 240) = ''0x63825363''"
    using assms(1,6) by (simp add: readablebytes_cookie length_getslice)
  then show ?thesis
    using assms(1-5,7)
    by (auto simp add: main_loop_body_def seq_def getitem_def dict_getitem_def
        split: option.splits)
qed

lemma build_response_eq:
  assumes "length transactionid = 4" "length flags = 2" "length thismacaddr = 6"
    "length (baipaddr cfg) = 4" "length (baipbind cfg) = 4"
    "length (basubnet cfg) = 4" "length (bagateway cfg) = 4"
    "messagetype = [1] \<or> messagetype = [3]"
  shows "build_response cfg transactionid flags thismacaddr messagetype =
    Inr (Sent (if messagetype = [1] then ''DHCPOFFER'' else ''DHCPACK'')
      (([2, 1, 6, 0] @ transactionid @ [0, 0] @ flags @ replicate 4 0 @ baipaddr cfg
          @ baipbind cfg @ replicate 4 0 @ thismacaddr @ replicate 202 0 @ [99, 130, 83, 99])
        @ [53, 1, if messagetype = [1] then 2 else 5]
        @ [1, 4] @ basubnet cfg
        @ [3, 4] @ bagateway cfg
        @ [51, 4, 0, 1, 81, 128]
        @ [54, 4] @ baipbind cfg
        @ [255]))"
proof -
  have "build_response cfg transactionid flags thismacaddr messagetype =
    (let offer = [2, 1, 6, 0] @ transactionid @ [0, 0] @ flags @ replicate 4 0 @ baipaddr cfg
          @ baipbind cfg @ replicate 4 0 @ thismacaddr @ replicate 202 0 @ [99, 130, 83, 99] in
     seq (if messagetype = [1]
          then seq (build1byteoption 53 2) (\<lambda>opt. Inr (Some ''DHCPOFFER'', offer @ opt))
          else Inr (None, offer)) (\<lambda>(responsename, offer).
     seq (if messagetype = [3]
          then seq (build1byteoption 53 5) (\<lambda>opt. Inr (Some ''DHCPACK'', offer @ opt))
          else Inr (responsename, offer)) (\<lambda>(responsename, offer).
     seq (buildbyteoption 1 (basubnet cfg)) (\<lambda>opt. let offer = offer @ opt in
     seq (buildbyteoption 3 (bagateway cfg)) (\<lambda>opt. let offer = offer @ opt in
     seq (build4byteoption 51 0 1 81 128) (\<lambda>opt. let offer = offer @ opt in
     seq (buildbyteoption 54 (baipbind cfg)) (\<lambda>opt. let offer = offer @ opt in
     seq buildendoption (\<lambda>opt. let offer = offer @ opt in
     (case responsename of
        None \<Rightarrow> Inl NameError
      | Some name \<Rightarrow> Inr (Sent name offer))))))))))"
    unfolding build_response_def offer_fixed
    by (simp only: Let_def cookieconstant_eq seq_Inr header_eq [OF assms(1,2,3,4,5)])
  then show ?thesis
    using assms(5,6,7,8)
    by (auto simp add: Let_def seq_Inr build1byteoption_eq buildbyteoption_eq
        build4byteoption_lease buildendoption_eq)
qed

lemma main_loop_body_cases:
  obtains (ignored) r where "main_loop_body cfg packet = Inr (Ignored r)"
  | (accepted) opts shown messagetype where
      "241 \<le> length packet" "packet ! 0 = 1 \<or> packet ! 0 = 2" "packet ! 1 = 1"
      "packet ! 2 = 6" "readablemacaddress (getslice packet 28 34) = macaddr cfg"
      "getslice packet 236 240 = [99, 130, 83, 99]"
      "process_options (drop 240 packet) = Inr (opts, shown)"
      "opts OPT_DHCP_MESSAGE_TYPE = Some messagetype"
      "messagetype = [1] \<or> messagetype = [3]"
      "main_loop_body cfg packet =
         build_response cfg (getslice packet 4 8) (getslice packet 10 12)
           (getslice packet 28 34) messagetype"
proof (cases "length packet = 0")
  case True
  then show ?thesis using ignored main_loop_body_NoBytes by blast
next
  case n0: False
  show ?thesis
  proof (cases "length packet < 241")
    case True
    with n0 show ?thesis using ignored main_loop_body_LessThan241 by blast
  next
    case False
    then have len: "241 \<le> length packet" by simp
    show ?thesis
    proof (cases "packet ! 0 = 1 \<or> packet ! 0 = 2")
      case False
      with len show ?thesis using ignored main_loop_body_OpNot1Or2 by blast
    next
      case op: True
      show ?thesis
      proof (cases "packet ! 1 = 1")
        case False
        with len op show ?thesis using ignored main_loop_body_HardwareTypeNot1 by blast
      next
        case ht: True
        show ?thesis
        proof (cases "packet ! 2 = 6")
          case False
          with len op ht show ?thesis
            using ignored main_loop_body_HardwareAddressLengthNot6 by blast
        next
          case hl: True
          show ?thesis
          proof (cases "readablemacaddress (getslice packet 28 34) = macaddr cfg")
            case False
            with len op ht hl show ?thesis using ignored main_loop_body_MacMismatch by blast
          next
            case mac: True
            show ?thesis
            proof (cases "getslice packet 236 240 = [99, 130, 83, 99]")
              case False
              with len op ht hl mac show ?thesis
                using ignored main_loop_body_NoMagicCookie by blast
            next
              case ck: True
              note h = len op ht hl mac ck
              obtain opts shown where p: "process_options (drop 240 packet) = Inr (opts, shown)"
                using options_loop_total [of "drop 240 packet" 0 Map.empty "[]"]
                by (auto simp add: process_options_def)
              note m = main_loop_body_options [OF h p, of ]
              show ?thesis
              proof (cases "opts OPT_DHCP_MESSAGE_TYPE")
                case None
                with m show ?thesis using ignored by simp
              next
                case (Some messagetype)
                show ?thesis
                proof (cases "messagetype = [1] \<or> messagetype = [3]")
                  case True
                  with m Some have "main_loop_body cfg packet =
                    build_response cfg (getslice packet 4 8) (getslice packet 10 12)
                      (getslice packet 28 34) messagetype"
                    by auto
                  with h p Some True show ?thesis using accepted by blast
                next
                  case False
                  with m Some show ?thesis using ignored by (cases "length messagetype = 1") auto
                qed
              qed
            qed
          qed
        qed
      qed
    qed
  qed
qed

section \<open>Facts about the example inputs\<close>

lemma example_packet_fields:
  assumes "length thismacaddr = 6" "length cookie = 4"
  shows "length (example_packet thismacaddr cookie optiondata) = 240 + length optiondata"
    and "example_packet thismacaddr cookie optiondata ! 0 = 1"
    and "example_packet thismacaddr cookie optiondata ! 1 = 1"
    and "example_packet thismacaddr cookie optiondata ! Suc 0 = 1"
    and "example_packet thismacaddr cookie optiondata ! 2 = 6"
    and "getslice (example_packet thismacaddr cookie optiondata) 4 8 = [18, 52, 86, 120]"
    and "getslice (example_packet thismacaddr cookie optiondata) 10 12 = [0, 0]"
    and "getslice (example_packet thismacaddr cookie optiondata) 28 34 = thismacaddr"
    and "getslice (example_packet thismacaddr cookie optiondata) 236 240 = cookie"
    and "drop 240 (example_packet thismacaddr cookie optiondata) = optiondata"
    and "take 240 (example_packet thismacaddr cookie optiondata)
         = [1, 1, 6, 0] @ [18, 52, 86, 120] @ replicate 20 0 @ thismacaddr @ replicate 202 0
           @ cookie"
  using assms by (simp_all add: example_packet_def getslice_def numeral_2_eq_2)

lemma readablemacaddress_example:
  "readablemacaddress [170, 187, 204, 221, 238, 255] = ''AA:BB:CC:DD:EE:FF''"
  by (simp add: readablemacaddress_def format_02X_def hexdigit_def)

lemma readablemacaddress_zero:
  "readablemacaddress [0, 0, 0, 0, 0, 0] = ''00:00:00:00:00:00''"
  by (simp add: readablemacaddress_def format_02X_def hexdigit_def)

lemma process_options_discover:
  "process_options [53, 1, 1, 255] = Inr ([53 \<mapsto> [1]], [(53, [1])])"
  by (simp add: process_options_def options_loop_entry options_loop_end getslice_def)

lemma process_options_request:
  "process_options [53, 1, 3, 255] = Inr ([53 \<mapsto> [3]], [(53, [3])])"
  by (simp add: process_options_def options_loop_entry options_loop_end getslice_def)

lemma getslice_take: "hi \<le> n \<Longrightarrow> getslice (take n b) lo hi = getslice b lo hi"
  by (simp add: getslice_def drop_take)

lemma process_options_twice:
  "process_options [53, 1, 1, 53, 1, 3, 255]
   = Inr ([53 \<mapsto> [1], 53 \<mapsto> [3]], [(53, [1]), (53, [3])])"
  by (simp add: process_options_def options_loop_entry options_loop_end getslice_def)

lemma getslice_of_take:
  assumes "take 240 p2 = take 240 p1" "hi \<le> 240"
  shows "getslice p2 lo hi = getslice p1 lo hi"
  using getslice_take [OF assms(2), of p2 lo] getslice_take [OF assms(2), of p1 lo] assms(1)
  by simp

lemma nth_of_take:
  assumes "take 240 p2 = take 240 p1" "i < 240"
  shows "p2 ! i = p1 ! i"
  using nth_take [OF assms(2), of p2] nth_take [OF assms(2), of p1] assms(1) by simp

section \<open>Replies to requests whose message type the option loop decodes\<close>

text \<open>
  When the dictionary the option loop returns maps 53 to the single byte 1, a packet that
  passes the header checks is answered with a DHCPOFFER: a 240-byte header with Op 2 and
  the transaction id of the request, then message type 2, subnet mask, router, lease
  time 0, 1, 81, 128, server identifier (the bind address) and END, in this order. The
  configured addresses are 4 bytes each, as \<^verbatim>\<open>ip2bytearray\<close> returns them.
\<close>

lemma decoded_discover_reply:
  assumes "length (baipaddr cfg) = 4" "length (baipbind cfg) = 4"
    "length (basubnet cfg) = 4" "length (bagateway cfg) = 4"
    and "241 \<le> length packet" "packet ! 0 = 1" "packet ! 1 = 1" "packet ! 2 = 6"
    and "getslice packet 236 240 = [99, 130, 83, 99]"
    and "readablemacaddress (getslice packet 28 34) = macaddr cfg"
    and "process_options (drop 240 packet) = Inr (opts, shown)"
    and "opts 53 = Some [1]"
  shows "\<exists>header. length header = 240 \<and> header ! 0 = 2
    \<and> getslice header 4 8 = getslice packet 4 8
    \<and> main_loop_body cfg packet =
        Inr (Sent ''DHCPOFFER''
          (header @ [53, 1, 2]
             @ [1, 4] @ basubnet cfg
             @ [3, 4] @ bagateway cfg
             @ [51, 4, 0, 1, 81, 128]
             @ [54, 4] @ baipbind cfg
             @ [255]))"
proof -
  let ?xid = "getslice packet 4 8"
  let ?flags = "getslice packet 10 12"
  let ?mac = "getslice packet 28 34"
  let ?header = "[2, 1, 6, 0] @ ?xid @ [0, 0] @ ?flags @ replicate 4 0 @ baipaddr cfg
          @ baipbind cfg @ replicate 4 0 @ ?mac @ replicate 202 0 @ [99, 130, 83, 99]"
  have l: "length ?xid = 4" "length ?flags = 2" "length ?mac = 6"
    using assms(5) by (simp_all add: length_getslice)
  have op: "packet ! 0 = 1 \<or> packet ! 0 = 2"
    using assms(6) by simp
  have "main_loop_body cfg packet = build_response cfg ?xid ?flags ?mac [1]"
    using main_loop_body_options [OF assms(5) op assms(7,8,10,9,11), of ] assms(12)
    by (simp add: OPT_DHCP_MESSAGE_TYPE_def)
  also have "\<dots> = Inr (Sent ''DHCPOFFER''
          (?header @ [53, 1, 2]
             @ [1, 4] @ basubnet cfg
             @ [3, 4] @ bagateway cfg
             @ [51, 4, 0, 1, 81, 128]
             @ [54, 4] @ baipbind cfg
             @ [255]))"
    using build_response_eq [OF l assms(1,2,3,4), of "[1]"] by simp
  finally have r: "main_loop_body cfg packet = Inr (Sent ''DHCPOFFER''
          (?header @ [53, 1, 2]
             @ [1, 4] @ basubnet cfg
             @ [3, 4] @ bagateway cfg
             @ [51, 4, 0, 1, 81, 128]
             @ [54, 4] @ baipbind cfg
             @ [255]))" .
  have h1: "length ?header = 240"
    using l assms(1,2) by simp
  have h2: "?header ! 0 = 2" by simp
  have h3: "getslice ?header 4 8 = ?xid"
    using l by (simp add: getslice_def)
  from r h1 h2 h3 show ?thesis by blast
qed

lemma decoded_discover_reply_example:
  "\<exists>header. length header = 240 \<and> header ! 0 = 2
    \<and> getslice header 4 8 = [18, 52, 86, 120]
    \<and> main_loop_body example_config
          (example_packet [170, 187, 204, 221, 238, 255] [99, 130, 83, 99] [53, 1, 1, 255]) =
        Inr (Sent ''DHCPOFFER''
          (header @ [53, 1, 2]
             @ [1, 4] @ [255, 255, 255, 0]
             @ [3, 4] @ [192, 168, 2, 254]
             @ [51, 4, 0, 1, 81, 128]
             @ [54, 4] @ [192, 168, 2, 53]
             @ [255]))"
proof -
  let ?p = "example_packet [170, 187, 204, 221, 238, 255] [99, 130, 83, 99] [53, 1, 1, 255]"
  have d: "process_options (drop 240 ?p) = Inr ([53 \<mapsto> [1]], [(53, [1])])"
    by (simp add: example_packet_fields process_options_discover)
  have x: "getslice ?p 4 8 = [18, 52, 86, 120]"
    by (simp add: example_packet_fields)
  have c: "basubnet example_config = [255, 255, 255, 0]"
    "bagateway example_config = [192, 168, 2, 254]"
    "baipbind example_config = [192, 168, 2, 53]"
    by (simp_all add: example_config_def)
  have "\<exists>header. length header = 240 \<and> header ! 0 = 2
    \<and> getslice header 4 8 = getslice ?p 4 8
    \<and> main_loop_body example_config ?p =
        Inr (Sent ''DHCPOFFER''
          (header @ [53, 1, 2]
             @ [1, 4] @ basubnet example_config
             @ [3, 4] @ bagateway example_config
             @ [51, 4, 0, 1, 81, 128]
             @ [54, 4] @ baipbind example_config
             @ [255]))"
    by (rule decoded_discover_reply [OF _ _ _ _ _ _ _ _ _ _ d])
      (simp_all add: example_packet_fields readablemacaddress_example example_config_def)
  then show ?thesis
    unfolding x c .
qed

text \<open>
  Two packets with the same first 240 bytes, the dictionary mapping 53 to 1 for the first
  and to 3 for the second, get replies that differ only in the value byte of the message
  type option: 2 in the OFFER, 5 in the ACK.
\<close>

lemma decoded_offer_and_ack:
  assumes cfg: "length (baipaddr cfg) = 4" "length (baipbind cfg) = 4"
      "length (basubnet cfg) = 4" "length (bagateway cfg) = 4"
    and len1: "241 \<le> length p1"
    and hdr1: "p1 ! 0 = 1 \<or> p1 ! 0 = 2" "p1 ! 1 = 1" "p1 ! 2 = 6"
    and mac1: "readablemacaddress (getslice p1 28 34) = macaddr cfg"
    and cookie1: "getslice p1 236 240 = [99, 130, 83, 99]"
    and len2: "241 \<le> length p2"
    and same: "take 240 p2 = take 240 p1"
    and opts1: "process_options (drop 240 p1) = Inr (opts1, shown1)" "opts1 53 = Some [1]"
    and opts2: "process_options (drop 240 p2) = Inr (opts2, shown2)" "opts2 53 = Some [3]"
  shows "\<exists>header post. length header = 240
    \<and> main_loop_body cfg p1 = Inr (Sent ''DHCPOFFER'' (header @ [53, 1, 2] @ post))
    \<and> main_loop_body cfg p2 = Inr (Sent ''DHCPACK'' (header @ [53, 1, 5] @ post))"
proof -
  let ?xid = "getslice p1 4 8"
  let ?flags = "getslice p1 10 12"
  let ?mac = "getslice p1 28 34"
  let ?header = "[2, 1, 6, 0] @ ?xid @ [0, 0] @ ?flags @ replicate 4 0 @ baipaddr cfg
          @ baipbind cfg @ replicate 4 0 @ ?mac @ replicate 202 0 @ [99, 130, 83, 99]"
  let ?post = "[1, 4] @ basubnet cfg @ [3, 4] @ bagateway cfg @ [51, 4, 0, 1, 81, 128]
          @ [54, 4] @ baipbind cfg @ [255]"
  have l: "length ?xid = 4" "length ?flags = 2" "length ?mac = 6"
    using len1 by (simp_all add: length_getslice)
  have s2: "getslice p2 4 8 = ?xid" "getslice p2 10 12 = ?flags" "getslice p2 28 34 = ?mac"
    "getslice p2 236 240 = [99, 130, 83, 99]"
    using cookie1 by (simp_all add: getslice_of_take [OF same])
  have hdr2: "p2 ! 0 = 1 \<or> p2 ! 0 = 2" "p2 ! 1 = 1" "p2 ! 2 = 6"
    using hdr1 by (simp_all add: nth_of_take [OF same])
  have mac2: "readablemacaddress (getslice p2 28 34) = macaddr cfg"
    using mac1 s2(3) by simp
  have "main_loop_body cfg p1 = build_response cfg ?xid ?flags ?mac [1]"
    using main_loop_body_options [OF len1 hdr1 mac1 cookie1 opts1(1)] opts1(2)
    by (simp add: OPT_DHCP_MESSAGE_TYPE_def)
  then have r1: "main_loop_body cfg p1
      = Inr (Sent ''DHCPOFFER'' (?header @ [53, 1, 2] @ ?post))"
    using build_response_eq [OF l cfg, of "[1]"] by simp
  have "main_loop_body cfg p2 = build_response cfg ?xid ?flags ?mac [3]"
    using main_loop_body_options [OF len2 hdr2 mac2 s2(4) opts2(1)] opts2(2) s2(1,2,3)
    by (simp add: OPT_DHCP_MESSAGE_TYPE_def)
  then have r2: "main_loop_body cfg p2
      = Inr (Sent ''DHCPACK'' (?header @ [53, 1, 5] @ ?post))"
    using build_response_eq [OF l cfg, of "[3]"] by simp
  have "length ?header = 240"
    using l cfg(1,2) by simp
  with r1 r2 show ?thesis by blast
qed

lemma decoded_offer_and_ack_example:
  "\<exists>header post. length header = 240
    \<and> main_loop_body example_config
         (example_packet [170, 187, 204, 221, 238, 255] [99, 130, 83, 99] [53, 1, 1, 255])
       = Inr (Sent ''DHCPOFFER'' (header @ [53, 1, 2] @ post))
    \<and> main_loop_body example_config
         (example_packet [170, 187, 204, 221, 238, 255] [99, 130, 83, 99] [53, 1, 3, 255])
       = Inr (Sent ''DHCPACK'' (header @ [53, 1, 5] @ post))"
proof -
  let ?p1 = "example_packet [170, 187, 204, 221, 238, 255] [99, 130, 83, 99] [53, 1, 1, 255]"
  let ?p2 = "example_packet [170, 187, 204, 221, 238, 255] [99, 130, 83, 99] [53, 1, 3, 255]"
  show ?thesis
    by (rule decoded_offer_and_ack
        [where ?opts1.0 = "[53 \<mapsto> [1]]" and ?shown1.0 = "[(53, [1])]"
          and ?opts2.0 = "[53 \<mapsto> [3]]" and ?shown2.0 = "[(53, [3])]"])
      (simp_all add: process_options_discover process_options_request example_packet_fields
        readablemacaddress_example example_config_def)
qed

text \<open>Option 53 at the very end of the option bytes, with no END after it.\<close>

lemma process_options_discover_no_end:
  "process_options [53, 1, 1] = Inr (Map.empty, [])"
  by (simp add: process_options_def options_loop_short)

lemma process_options_request_no_end:
  "process_options [53, 1, 3] = Inr (Map.empty, [])"
  by (simp add: process_options_def options_loop_short)

lemma main_loop_body_no_end:
  assumes "process_options optiondata = Inr (Map.empty, [])" "optiondata \<noteq> []"
  shows "main_loop_body example_config
           (example_packet [170, 187, 204, 221, 238, 255] [99, 130, 83, 99] optiondata)
         = Inr (Ignored NoMessageType)"
proof -
  let ?p = "example_packet [170, 187, 204, 221, 238, 255] [99, 130, 83, 99] optiondata"
  have d: "process_options (drop 240 ?p) = Inr (Map.empty, [])"
    using assms by (simp add: example_packet_fields)
  have "main_loop_body example_config ?p =
    (case Map.empty OPT_DHCP_MESSAGE_TYPE of
       None \<Rightarrow> Inr (Ignored NoMessageType)
     | Some messagetype \<Rightarrow>
         if length messagetype \<noteq> 1 then Inr (Ignored MessageTypeNotSingleByte)
         else if messagetype \<noteq> [1] \<and> messagetype \<noteq> [3]
         then Inr (Ignored MessageTypeNotSupported)
         else build_response example_config (getslice ?p 4 8) (getslice ?p 10 12)
                (getslice ?p 28 34) messagetype)"
    by (rule main_loop_body_options [OF _ _ _ _ _ _ d])
      (use assms(2) in \<open>simp_all add: example_packet_fields readablemacaddress_example
         example_config_def Suc_le_eq\<close>)
  then show ?thesis by simp
qed

section \<open>The claims\<close>

text \<open>
  C1 (the code departs from the claim): an option whose payload ends exactly at the last
  byte of the buffer is not decoded. The test \<^verbatim>\<open>(i + optlen) >= numoptbytes\<close> also holds when
  the payload fills the buffer to its end, so the loop breaks with the warning
  "premature EOF when expecting option data" although all the data is there. On the
  buffer 53, 1, 1 the loop returns the empty dictionary.
\<close>

theorem option_at_end_of_buffer_dropped:
  "process_options [53, 1, 1] = Inr (Map.empty, [])"
  by (simp add: process_options_def options_loop_short)

text \<open>
  C2 as stated fails: the loop body compares the hardware address with \<^verbatim>\<open>macaddr\<close> before
  it looks at the cookie. A packet that passes the length, Op, hardware type and
  hardware address length checks, with a wrong cookie and a hardware address that is not
  the configured one, is ignored for the MAC mismatch, not for the cookie.
\<close>

theorem bad_cookie_wrong_mac_counterexample:
  "241 \<le> length (example_packet [0, 0, 0, 0, 0, 0] [0, 0, 0, 0] [53, 1, 1, 255])
   \<and> example_packet [0, 0, 0, 0, 0, 0] [0, 0, 0, 0] [53, 1, 1, 255] ! 0 = 1
   \<and> example_packet [0, 0, 0, 0, 0, 0] [0, 0, 0, 0] [53, 1, 1, 255] ! 1 = 1
   \<and> example_packet [0, 0, 0, 0, 0, 0] [0, 0, 0, 0] [53, 1, 1, 255] ! 2 = 6
   \<and> getslice (example_packet [0, 0, 0, 0, 0, 0] [0, 0, 0, 0] [53, 1, 1, 255]) 236 240
       \<noteq> [99, 130, 83, 99]
   \<and> main_loop_body example_config
         (example_packet [0, 0, 0, 0, 0, 0] [0, 0, 0, 0] [53, 1, 1, 255])
       = Inr (Ignored MacMismatch)
   \<and> main_loop_body example_config
         (example_packet [0, 0, 0, 0, 0, 0] [0, 0, 0, 0] [53, 1, 1, 255])
       \<noteq> Inr (Ignored NoMagicCookie)"
proof -
  let ?p = "example_packet [0, 0, 0, 0, 0, 0] [0, 0, 0, 0] [53, 1, 1, 255]"
  have "main_loop_body example_config ?p = Inr (Ignored MacMismatch)"
    by (rule main_loop_body_MacMismatch)
      (simp_all add: example_packet_fields readablemacaddress_zero example_config_def)
  then show ?thesis
    by (simp add: example_packet_fields)
qed

text \<open>
  C2 as amended: a packet that passes the length, Op, hardware type and hardware address
  length checks and carries a wrong cookie is always ignored, with no reply: for the
  cookie when its hardware address is the configured one, for the MAC mismatch otherwise.
\<close>

theorem bad_cookie_rejected:
  assumes "241 \<le> length packet" "packet ! 0 = 1 \<or> packet ! 0 = 2" "packet ! 1 = 1"
    "packet ! 2 = 6" "getslice packet 236 240 \<noteq> [99, 130, 83, 99]"
  shows "main_loop_body cfg packet =
    Inr (Ignored (if readablemacaddress (getslice packet 28 34) = macaddr cfg
                  then NoMagicCookie else MacMismatch))"
  using assms main_loop_body_MacMismatch [of packet cfg]
    main_loop_body_NoMagicCookie [of packet cfg]
  by (cases "readablemacaddress (getslice packet 28 34) = macaddr cfg") simp_all

theorem bad_cookie_rejected_witness:
  "main_loop_body example_config
     (example_packet [170, 187, 204, 221, 238, 255] [0, 0, 0, 0] [53, 1, 1, 255])
   = Inr (Ignored NoMagicCookie)"
  using bad_cookie_rejected [of
      "example_packet [170, 187, 204, 221, 238, 255] [0, 0, 0, 0] [53, 1, 1, 255]"
      example_config]
  by (simp add: example_packet_fields readablemacaddress_example example_config_def)

text \<open>
  C3 (the code departs from the claim): \<^verbatim>\<open>buildbyteoption\<close> with an empty payload returns
  the two bytes code, 0 and not the code alone. Its test \<^verbatim>\<open>(ba) == 0\<close> compares the byte
  array with an integer and is never true, so the one-byte branch is never taken.
\<close>

theorem buildbyteoption_empty_payload:
  "buildbyteoption 12 [] = Inr [12, 0]"
  by (simp add: buildbyteoption_eq)

text \<open>
  C4: for every option code from 1 to 254 and every payload of at most 255 bytes,
  \<^verbatim>\<open>buildbyteoption\<close> returns bytes, and the option loop run on these bytes followed by
  the END byte of \<^verbatim>\<open>buildendoption\<close> returns the dictionary with exactly the entry
  code to payload (and shows exactly that option).
\<close>

theorem encode_decode_roundtrip:
  assumes "1 \<le> code" "code \<le> 254" "length payload \<le> 255"
  shows "\<exists>enc fin. buildbyteoption code payload = Inr enc \<and> buildendoption = Inr fin
    \<and> process_options (enc @ fin)
        = Inr ([word_of_int code \<mapsto> payload], [(word_of_int code, payload)])"
proof -
  let ?c = "word_of_int code :: byte"
  let ?n = "of_nat (length payload) :: byte"
  let ?bs = "(?c # ?n # payload) @ [255]"
  have u: "uint ?c = code"
    using assms(1,2) by (simp add: uint_word_of_int)
  have c0: "?c \<noteq> 0"
    using u assms(1) by auto
  have c255: "?c \<noteq> 255"
    using u assms(2) by auto
  have n: "unat ?n = length payload"
    using assms(3) by (simp add: unat_of_nat)
  have enc: "buildbyteoption code payload = Inr (?c # ?n # payload)"
    using assms by (simp add: buildbyteoption_eq)
  have e1: "options_loop ?bs 0 Map.empty [] =
    options_loop ?bs (0 + 2 + unat (?bs ! (0 + 1)))
      (Map.empty(?bs ! 0 \<mapsto> getslice ?bs (0 + 2) (0 + 2 + unat (?bs ! (0 + 1)))))
      ([] @ [(?bs ! 0, getslice ?bs (0 + 2) (0 + 2 + unat (?bs ! (0 + 1))))])"
    by (rule options_loop_entry) (simp_all add: c0 c255 n)
  have g: "getslice ?bs (0 + 2) (0 + 2 + unat (?bs ! (0 + 1))) = payload"
    by (simp add: getslice_def n)
  have e2: "options_loop ?bs (2 + length payload) [?c \<mapsto> payload] [(?c, payload)]
    = Inr ([?c \<mapsto> payload], [(?c, payload)])"
    by (rule options_loop_end) (simp_all add: nth_append)
  have "process_options ?bs = Inr ([?c \<mapsto> payload], [(?c, payload)])"
    unfolding process_options_def e1 g using e2 by (simp add: n)
  with enc show ?thesis by (simp add: buildendoption_eq)
qed

theorem encode_decode_roundtrip_witness:
  "\<exists>enc fin. buildbyteoption 12 [] = Inr enc \<and> buildendoption = Inr fin
    \<and> process_options (enc @ fin) = Inr ([12 \<mapsto> []], [(12, [])])"
  using encode_decode_roundtrip [of 12 "[]"] by simp

text \<open>
  C5 (the code departs from the claim): a DISCOVER whose option 53 is the last thing in
  the datagram gets no reply. The packet below has 243 bytes, Op 1, hardware type 1,
  hardware address length 6, the configured hardware address, the cookie 99, 130, 83, 99
  and the option bytes 53, 1, 1: option 53 is present with the one-byte payload 1. The
  option loop breaks before it stores the option (the test \<^verbatim>\<open>(i + optlen) >= numoptbytes\<close>
  of C1), so the loop body finds no message type and ignores the packet.
\<close>

theorem discover_at_end_of_datagram_ignored:
  "length (example_packet [170, 187, 204, 221, 238, 255] [99, 130, 83, 99] [53, 1, 1]) = 243
   \<and> example_packet [170, 187, 204, 221, 238, 255] [99, 130, 83, 99] [53, 1, 1] ! 0 = 1
   \<and> example_packet [170, 187, 204, 221, 238, 255] [99, 130, 83, 99] [53, 1, 1] ! 1 = 1
   \<and> example_packet [170, 187, 204, 221, 238, 255] [99, 130, 83, 99] [53, 1, 1] ! 2 = 6
   \<and> getslice (example_packet [170, 187, 204, 221, 238, 255] [99, 130, 83, 99] [53, 1, 1])
         236 240 = [99, 130, 83, 99]
   \<and> readablemacaddress
         (getslice (example_packet [170, 187, 204, 221, 238, 255] [99, 130, 83, 99] [53, 1, 1])
            28 34) = macaddr example_config
   \<and> drop 240 (example_packet [170, 187, 204, 221, 238, 255] [99, 130, 83, 99] [53, 1, 1])
       = [53, 1, 1]
   \<and> main_loop_body example_config
         (example_packet [170, 187, 204, 221, 238, 255] [99, 130, 83, 99] [53, 1, 1])
       = Inr (Ignored NoMessageType)"
  using main_loop_body_no_end [OF process_options_discover_no_end]
  by (simp add: example_packet_fields readablemacaddress_example example_config_def)

text \<open>
  C6 (the code departs from the claim): a DISCOVER and a REQUEST that are the same
  well-formed packet from the configured host but for the value of option 53 (1 and 3),
  the option being the last thing in the datagram, get no reply at all, neither an OFFER
  nor an ACK. The two packets below are equal on their first 242 bytes and differ in the
  last one. The cause is the one of C1 and C5: the option loop breaks before it stores an
  option whose payload ends at the last byte.
\<close>

theorem discover_request_pair_at_end_of_datagram_ignored:
  "length (example_packet [170, 187, 204, 221, 238, 255] [99, 130, 83, 99] [53, 1, 1]) = 243
   \<and> example_packet [170, 187, 204, 221, 238, 255] [99, 130, 83, 99] [53, 1, 1] ! 0 = 1
   \<and> example_packet [170, 187, 204, 221, 238, 255] [99, 130, 83, 99] [53, 1, 1] ! 1 = 1
   \<and> example_packet [170, 187, 204, 221, 238, 255] [99, 130, 83, 99] [53, 1, 1] ! 2 = 6
   \<and> getslice (example_packet [170, 187, 204, 221, 238, 255] [99, 130, 83, 99] [53, 1, 1])
         236 240 = [99, 130, 83, 99]
   \<and> readablemacaddress
         (getslice (example_packet [170, 187, 204, 221, 238, 255] [99, 130, 83, 99] [53, 1, 1])
            28 34) = macaddr example_config
   \<and> take 242 (example_packet [170, 187, 204, 221, 238, 255] [99, 130, 83, 99] [53, 1, 3])
       = take 242 (example_packet [170, 187, 204, 221, 238, 255] [99, 130, 83, 99] [53, 1, 1])
   \<and> drop 240 (example_packet [170, 187, 204, 221, 238, 255] [99, 130, 83, 99] [53, 1, 1])
       = [53, 1, 1]
   \<and> drop 240 (example_packet [170, 187, 204, 221, 238, 255] [99, 130, 83, 99] [53, 1, 3])
       = [53, 1, 3]
   \<and> main_loop_body example_config
         (example_packet [170, 187, 204, 221, 238, 255] [99, 130, 83, 99] [53, 1, 1])
       = Inr (Ignored NoMessageType)
   \<and> main_loop_body example_config
         (example_packet [170, 187, 204, 221, 238, 255] [99, 130, 83, 99] [53, 1, 3])
       = Inr (Ignored NoMessageType)"
proof -
  have "take 242 (example_packet [170, 187, 204, 221, 238, 255] [99, 130, 83, 99] [53, 1, 3])
      = take 242 (example_packet [170, 187, 204, 221, 238, 255] [99, 130, 83, 99] [53, 1, 1])"
    by (simp add: example_packet_def)
  then show ?thesis
    using main_loop_body_no_end [OF process_options_discover_no_end]
      main_loop_body_no_end [OF process_options_request_no_end]
    by (simp add: example_packet_fields readablemacaddress_example example_config_def)
qed



text \<open>
  C8: last write wins. If \<open>(c, v)\<close> is the last option with code \<open>c\<close> among the options
  the loop decoded in full (the ones it shows, in order), the dictionary maps \<open>c\<close> to
  \<open>v\<close>. For code 53 this decides the classification: a packet that passes the header
  checks is ignored or answered according to that last value \<open>v\<close> alone.
\<close>

theorem last_write_wins:
  assumes "process_options optiondata = Inr (opts, shown)"
    and "shown = before @ (c, v) # after"
    and "c \<notin> fst ` set after"
  shows "opts c = Some v
    \<and> (\<forall>cfg packet.
          c = OPT_DHCP_MESSAGE_TYPE \<and> drop 240 packet = optiondata
          \<and> 241 \<le> length packet \<and> (packet ! 0 = 1 \<or> packet ! 0 = 2)
          \<and> packet ! 1 = 1 \<and> packet ! 2 = 6
          \<and> readablemacaddress (getslice packet 28 34) = macaddr cfg
          \<and> getslice packet 236 240 = [99, 130, 83, 99]
          \<longrightarrow> main_loop_body cfg packet =
                (if length v \<noteq> 1 then Inr (Ignored MessageTypeNotSingleByte)
                 else if v \<noteq> [1] \<and> v \<noteq> [3] then Inr (Ignored MessageTypeNotSupported)
                 else build_response cfg (getslice packet 4 8) (getslice packet 10 12)
                        (getslice packet 28 34) v))"
proof -
  have "opts = map_of (rev shown)"
    using options_loop_map_of [of optiondata 0 "[]" opts shown] assms(1)
    by (simp add: process_options_def)
  moreover have "map_of (rev after) c = None"
    using assms(3) by (simp add: map_of_eq_None_iff)
  ultimately have 1: "opts c = Some v"
    using assms(2) by (simp add: map_of_append map_add_def)
  have 2: "main_loop_body cfg packet =
                (if length v \<noteq> 1 then Inr (Ignored MessageTypeNotSingleByte)
                 else if v \<noteq> [1] \<and> v \<noteq> [3] then Inr (Ignored MessageTypeNotSupported)
                 else build_response cfg (getslice packet 4 8) (getslice packet 10 12)
                        (getslice packet 28 34) v)"
    if "c = OPT_DHCP_MESSAGE_TYPE" "drop 240 packet = optiondata"
      "241 \<le> length packet" "packet ! 0 = 1 \<or> packet ! 0 = 2"
      "packet ! 1 = 1" "packet ! 2 = 6"
      "readablemacaddress (getslice packet 28 34) = macaddr cfg"
      "getslice packet 236 240 = [99, 130, 83, 99]" for cfg packet
  proof -
    have "process_options (drop 240 packet) = Inr (opts, shown)"
      using assms(1) that(2) by simp
    from main_loop_body_options [OF that(3-8) this] 1 that(1) show ?thesis by simp
  qed
  from 1 2 show ?thesis by blast
qed

theorem last_write_wins_witness:
  "\<exists>opts shown. process_options [53, 1, 1, 53, 1, 3, 255] = Inr (opts, shown)
     \<and> opts 53 = Some [3]
     \<and> main_loop_body example_config
          (example_packet [170, 187, 204, 221, 238, 255] [99, 130, 83, 99]
             [53, 1, 1, 53, 1, 3, 255])
        = build_response example_config [18, 52, 86, 120] [0, 0]
            [170, 187, 204, 221, 238, 255] [3]"
proof -
  let ?p = "example_packet [170, 187, 204, 221, 238, 255] [99, 130, 83, 99]
             [53, 1, 1, 53, 1, 3, 255]"
  note w = last_write_wins [OF process_options_twice, of "[(53, [1])]" 53 "[3]" "[]"]
  have a: "[53 \<mapsto> [1], 53 \<mapsto> [3::byte]] (53::byte) = Some [3]"
    using w by simp
  have f: "getslice ?p 4 8 = [18, 52, 86, 120]" "getslice ?p 10 12 = [0, 0]"
    "getslice ?p 28 34 = [170, 187, 204, 221, 238, 255]"
    by (simp_all add: example_packet_fields)
  have "main_loop_body example_config ?p =
    (if length [3::byte] \<noteq> 1 then Inr (Ignored MessageTypeNotSingleByte)
     else if [3::byte] \<noteq> [1] \<and> [3::byte] \<noteq> [3]
     then Inr (Ignored MessageTypeNotSupported)
     else build_response example_config (getslice ?p 4 8) (getslice ?p 10 12)
            (getslice ?p 28 34) [3])"
    by (rule conjunct2 [OF w, rule_format])
      (simp_all add: example_packet_fields readablemacaddress_example example_config_def
        OPT_DHCP_MESSAGE_TYPE_def)
  then have "main_loop_body example_config ?p
        = build_response example_config [18, 52, 86, 120] [0, 0]
            [170, 187, 204, 221, 238, 255] [3]"
    by (simp add: f)
  with a show ?thesis by (simp add: process_options_twice)
qed

text \<open>
  C9: the option loop is total. For every byte sequence it terminates (the function is
  defined by well-founded recursion on the bytes left) and returns a dictionary and a
  list of shown options; no read of \<^verbatim>\<open>optiondata[i]\<close> raises IndexError, since every outcome
  is an \<open>Inr\<close>.
\<close>

theorem process_options_total:
  "\<exists>opts shown. process_options optiondata = Inr (opts, shown)"
  using options_loop_total [of optiondata 0 Map.empty "[]"]
  by (auto simp add: process_options_def)

text \<open>
  C10: every reply is 268 bytes long, whatever the request: 240 bytes of header, 3 bytes
  of message type, 6 bytes each for subnet mask, router, lease time and server
  identifier, and the END byte. The four configured addresses are 4 bytes each, as
  \<^verbatim>\<open>ip2bytearray\<close> returns them (it fills a \<^verbatim>\<open>bytearray(4)\<close>).
\<close>

theorem reply_length:
  assumes "length (baipaddr cfg) = 4" "length (baipbind cfg) = 4"
    "length (basubnet cfg) = 4" "length (bagateway cfg) = 4"
    and "main_loop_body cfg packet = Inr (Sent name offer)"
  shows "length offer = 268"
proof (cases rule: main_loop_body_cases [of cfg packet])
  case (ignored r)
  with assms(5) show ?thesis by simp
next
  case (accepted opts shown messagetype)
  have "build_response cfg (getslice packet 4 8) (getslice packet 10 12)
           (getslice packet 28 34) messagetype = Inr (Sent name offer)"
    using accepted(10) assms(5) by simp
  moreover have "length (getslice packet 4 8) = 4" "length (getslice packet 10 12) = 2"
    "length (getslice packet 28 34) = 6"
    using accepted(1) by (simp_all add: length_getslice)
  ultimately show ?thesis
    using build_response_eq [OF _ _ _ assms(1,2,3,4) accepted(9),
        of "getslice packet 4 8" "getslice packet 10 12" "getslice packet 28 34"] assms(1-4)
    by auto
qed

theorem reply_length_witness:
  "\<exists>name offer.
     main_loop_body example_config
       (example_packet [170, 187, 204, 221, 238, 255] [99, 130, 83, 99] [53, 1, 1, 255])
     = Inr (Sent name offer) \<and> length offer = 268"
proof -
  let ?p = "example_packet [170, 187, 204, 221, 238, 255] [99, 130, 83, 99] [53, 1, 1, 255]"
  have d: "process_options (drop 240 ?p) = Inr ([53 \<mapsto> [1]], [(53, [1])])"
    by (simp add: example_packet_fields process_options_discover)
  have "main_loop_body example_config ?p
    = build_response example_config [18, 52, 86, 120] [0, 0] [170, 187, 204, 221, 238, 255] [1]"
    using main_loop_body_options [OF _ _ _ _ _ _ d, where cfg = example_config]
    by (simp add: example_packet_fields readablemacaddress_example example_config_def
        OPT_DHCP_MESSAGE_TYPE_def)
  then obtain offer where o: "main_loop_body example_config ?p = Inr (Sent ''DHCPOFFER'' offer)"
    using build_response_eq [of "[18, 52, 86, 120]" "[0, 0]" "[170, 187, 204, 221, 238, 255]"
        example_config "[1]"]
    by (simp add: example_config_def)
  from reply_length [OF _ _ _ _ o] have "length offer = 268"
    by (simp add: example_config_def)
  with o show ?thesis by blast
qed

end
